theory Spec2Isabelle
  imports Complex_Main
begin

section \<open>Stock dashboard: quote cache, refresh loop and portfolio ledger\<close>

text \<open>
  A shallow embedding of \<^verbatim>\<open>src/main.py\<close>: the classes \<^verbatim>\<open>StockData\<close>,
  \<^verbatim>\<open>StockDataManager\<close> and \<^verbatim>\<open>PortfolioManager\<close> and the coroutine
  \<^verbatim>\<open>update_market_data\<close>.

  Modelling conventions.
  \<^item> Python floats are \<open>real\<close>: rounding, infinities and NaN are outside the model.
  \<^item> A \<^verbatim>\<open>datetime\<close> is an \<open>int\<close>, the number of microseconds since the epoch, and a
    \<^verbatim>\<open>timedelta\<close> is their difference. Every reading of \<^verbatim>\<open>datetime.now()\<close> is an input
    of the model, so no assumption is made on how the clock moves.
  \<^item> A \<^verbatim>\<open>str\<close> is a \<open>string\<close> of 8-bit characters and \<^verbatim>\<open>str.upper\<close> maps the
    letters \<^verbatim>\<open>a\<close> to \<^verbatim>\<open>z\<close> to \<^verbatim>\<open>A\<close> to \<^verbatim>\<open>Z\<close>; the case mapping of non-ASCII
    code points is outside the model.
  \<^item> A \<^verbatim>\<open>dict\<close> is a map \<open>string \<rightharpoonup> 'v\<close>.
  \<^item> The market-data provider (\<^verbatim>\<open>yfinance\<close>) is an input of the model: what it answers
    for a symbol, or that it raises.
\<close>

subsection \<open>Strings\<close>

definition upper_char :: "char \<Rightarrow> char" where
  "upper_char c =
     (let n = (of_char c :: nat) in if 97 \<le> n \<and> n \<le> 122 then char_of (n - 32) else c)"

definition upper :: "string \<Rightarrow> string" where
  "upper s = map upper_char s"

subsection \<open>Data model\<close>

type_synonym datetime = int

text \<open>The dataclass \<^verbatim>\<open>StockData\<close> (lines 70 to 81).\<close>

record StockData =
  symbol :: string
  name :: string
  price :: real
  change :: real
  change_percent :: real
  volume :: int
  market_cap :: "real option"
  pe_ratio :: "real option"
  dividend_yield :: "real option"
  last_updated :: datetime

text \<open>
  What the provider returns. \<open>ticker_info\<close> holds the four keys that the code reads from
  \<^verbatim>\<open>ticker.info\<close> (\<open>None\<close>: the key is missing). A \<open>bar\<close> is one row of
  \<^verbatim>\<open>ticker.history(period="2d")\<close> with the two columns that the code reads; a \<open>Volume\<close>
  of \<open>None\<close> is a value on which \<^verbatim>\<open>int(...)\<close> raises (NaN). \<open>YfRaises\<close> is any exception
  raised by \<^verbatim>\<open>yf.Ticker\<close>, \<^verbatim>\<open>ticker.info\<close> or \<^verbatim>\<open>ticker.history\<close>.
\<close>

record ticker_info =
  longName :: "string option"
  marketCap :: "real option"
  trailingPE :: "real option"
  dividendYield :: "real option"

record bar =
  Close :: real
  Volume :: "int option"

datatype yf_response = YfRaises | YfData ticker_info "bar list"

text \<open>
  What one call of \<^verbatim>\<open>get_stock_data\<close> observes of the outside world: the clock at the
  freshness test (line 96), the provider's answer (lines 100 to 102) and the clock when the
  \<^verbatim>\<open>StockData\<close> is constructed (the \<^verbatim>\<open>default_factory\<close> of \<^verbatim>\<open>last_updated\<close>).
\<close>

record observation =
  now_check :: datetime
  reply :: "string \<Rightarrow> yf_response"
  now_stamp :: datetime

text \<open>
  \<^verbatim>\<open>StockDataManager\<close>. The field \<open>fetches\<close> is a ghost field: the symbols passed to
  \<^verbatim>\<open>yf.Ticker\<close> so far, one entry for each underlying fetch.
\<close>

record StockDataManager =
  cache :: "string \<rightharpoonup> StockData"
  fetches :: "string list"

definition cache_duration :: int where
  "cache_duration = 60 * 1000000"

definition new_StockDataManager :: StockDataManager where
  "new_StockDataManager = \<lparr>cache = Map.empty, fetches = []\<rparr>"

subsection \<open>\<^verbatim>\<open>StockDataManager.get_stock_data\<close> (lines 90 to 129)\<close>

text \<open>Lines 94 to 97: the entry of the cache that the call returns without fetching.\<close>

definition cached_fresh :: "observation \<Rightarrow> StockDataManager \<Rightarrow> string \<Rightarrow> StockData option" where
  "cached_fresh ob m symb =
     (case cache m symb of
        None \<Rightarrow> None
      | Some cached_data \<Rightarrow>
          if now_check ob - last_updated cached_data < cache_duration
          then Some cached_data else None)"

text \<open>Line 110.\<close>

definition percent_change :: "real \<Rightarrow> real \<Rightarrow> real" where
  "percent_change current_price previous_price =
     (let change = current_price - previous_price
      in if previous_price \<noteq> 0 then (change / previous_price) * 100 else 0)"

text \<open>Line 108, on a history that is not empty: the close before the last one, if there is one.\<close>

definition previous_close :: "bar list \<Rightarrow> real" where
  "previous_close hist =
     (if length hist > 1 then Close (hist ! (length hist - 2)) else Close (last hist))"

text \<open>
  Lines 107 to 122, on a history that is not empty. The result is \<open>None\<close> when
  \<^verbatim>\<open>int(hist['Volume'].iloc[-1])\<close> raises.
\<close>

definition make_stock_data :: "string \<Rightarrow> ticker_info \<Rightarrow> bar list \<Rightarrow> datetime \<Rightarrow> StockData option" where
  "make_stock_data symb info hist now =
     (let current_price = Close (last hist);
          previous_price = previous_close hist;
          chg = current_price - previous_price;
          chg_percent = percent_change current_price previous_price
      in case Volume (last hist) of
           None \<Rightarrow> None
         | Some v \<Rightarrow>
             Some \<lparr>symbol = upper symb,
                   name = (case longName info of Some n \<Rightarrow> n | None \<Rightarrow> symb),
                   price = current_price,
                   change = chg,
                   change_percent = chg_percent,
                   volume = v,
                   market_cap = marketCap info,
                   pe_ratio = trailingPE info,
                   dividend_yield = dividendYield info,
                   last_updated = now\<rparr>)"

text \<open>
  The whole call. Every exception is caught by the \<^verbatim>\<open>except Exception\<close> of line 127 and
  turned into the result \<open>None\<close>.
\<close>

definition get_stock_data ::
  "observation \<Rightarrow> StockDataManager \<Rightarrow> string \<Rightarrow> StockData option \<times> StockDataManager" where
  "get_stock_data ob m symb =
     (case cached_fresh ob m symb of
        Some cached_data \<Rightarrow> (Some cached_data, m)
      | None \<Rightarrow>
          (let m1 = m\<lparr>fetches := fetches m @ [symb]\<rparr>
           in case reply ob symb of
                YfRaises \<Rightarrow> (None, m1)
              | YfData info hist \<Rightarrow>
                  if hist = [] then (None, m1)
                  else (case make_stock_data symb info hist (now_stamp ob) of
                          None \<Rightarrow> (None, m1)
                        | Some stock_data \<Rightarrow>
                            (Some stock_data, m1\<lparr>cache := (cache m1)(symb \<mapsto> stock_data)\<rparr>))))"

subsection \<open>\<^verbatim>\<open>PortfolioManager\<close> (lines 142 to 186)\<close>

text \<open>A holding is the dictionary appended by \<^verbatim>\<open>add_to_portfolio\<close>.\<close>

record holding =
  holding_symbol :: string
  shares :: real
  purchase_price :: real
  purchase_date :: datetime

text \<open>The list \<^verbatim>\<open>alerts\<close> is never read or written after construction and is left out.\<close>

record PortfolioManager =
  portfolio :: "holding list"
  watchlist :: "string list"

definition new_PortfolioManager :: PortfolioManager where
  "new_PortfolioManager =
     \<lparr>portfolio = [],
      watchlist = [''AAPL'', ''GOOGL'', ''MSFT'', ''TSLA'', ''AMZN'', ''NVDA'', ''META'', ''NFLX'']\<rparr>"

definition add_to_portfolio :: "datetime \<Rightarrow> PortfolioManager \<Rightarrow> string \<Rightarrow> real \<Rightarrow> real \<Rightarrow> PortfolioManager" where
  "add_to_portfolio now pm symb n p =
     pm\<lparr>portfolio := portfolio pm @
          [\<lparr>holding_symbol = upper symb, shares = n, purchase_price = p, purchase_date = now\<rparr>]\<rparr>"

definition add_to_watchlist :: "PortfolioManager \<Rightarrow> string \<Rightarrow> PortfolioManager" where
  "add_to_watchlist pm symb =
     (let s = upper symb
      in if s \<notin> set (watchlist pm) then pm\<lparr>watchlist := watchlist pm @ [s]\<rparr> else pm)"

text \<open>\<^verbatim>\<open>list.remove\<close> deletes the first occurrence and raises when there is none.\<close>

datatype py_error = RuntimeError | ValueError

definition list_remove :: "'a list \<Rightarrow> 'a \<Rightarrow> py_error + 'a list" where
  "list_remove xs x = (if x \<in> set xs then Inr (remove1 x xs) else Inl ValueError)"

definition remove_from_watchlist :: "PortfolioManager \<Rightarrow> string \<Rightarrow> py_error + PortfolioManager" where
  "remove_from_watchlist pm symb =
     (if symb \<in> set (watchlist pm)
      then (case list_remove (watchlist pm) symb of
              Inl e \<Rightarrow> Inl e
            | Inr wl \<Rightarrow> Inr (pm\<lparr>watchlist := wl\<rparr>))
      else Inr pm)"

text \<open>
  \<^verbatim>\<open>calculate_portfolio_value\<close> (lines 170 to 186). The event loop is \<open>None\<close> when no loop
  is running, and otherwise the symbols of the \<^verbatim>\<open>get_stock_data\<close> coroutines that are
  scheduled on it and have not run yet. \<^verbatim>\<open>asyncio.create_task\<close> raises
  \<^verbatim>\<open>RuntimeError\<close> without a running loop; with one it schedules the coroutine and
  returns at once, and the task object is dropped. The locals \<^verbatim>\<open>total_value\<close> and
  \<^verbatim>\<open>total_cost\<close> are \<open>tv\<close> and \<open>tc\<close>; the loop assigns neither.
\<close>

type_synonym event_loop = "string list option"

record summary =
  total_value :: real
  total_cost :: real
  total_pnl :: real
  total_pnl_percent :: real

definition create_task :: "event_loop \<Rightarrow> string \<Rightarrow> py_error + event_loop" where
  "create_task loop symb =
     (case loop of None \<Rightarrow> Inl RuntimeError | Some pending \<Rightarrow> Inr (Some (pending @ [symb])))"

fun create_tasks :: "event_loop \<Rightarrow> holding list \<Rightarrow> py_error + event_loop" where
  "create_tasks loop [] = Inr loop"
| "create_tasks loop (h # hs) =
     (case create_task loop (holding_symbol h) of
        Inl e \<Rightarrow> Inl e
      | Inr loop' \<Rightarrow> create_tasks loop' hs)"

definition calculate_portfolio_value ::
  "event_loop \<Rightarrow> PortfolioManager \<Rightarrow> StockDataManager \<Rightarrow> py_error + summary \<times> event_loop" where
  "calculate_portfolio_value loop pm stock_data_manager =
     (let tv = (0::real); tc = (0::real)
      in case create_tasks loop (portfolio pm) of
           Inl e \<Rightarrow> Inl e
         | Inr loop' \<Rightarrow>
             Inr (\<lparr>total_value = tv,
                   total_cost = tc,
                   total_pnl = tv - tc,
                   total_pnl_percent = (if tc > 0 then (tv - tc) / tc * 100 else 0)\<rparr>,
                  loop'))"

text \<open>
  The contract that the specification gives for the valuation (its section 4.4,
  \<^verbatim>\<open>computeSummary\<close>), written from the specification's words and not from the code: value
  and cost are summed over the holdings whose symbol has a quote in the snapshot, and the
  percentage is 0 when the cost is 0.
\<close>

definition priced :: "(string \<rightharpoonup> StockData) \<Rightarrow> holding list \<Rightarrow> holding list" where
  "priced snapshot hs = filter (\<lambda>h. snapshot (holding_symbol h) \<noteq> None) hs"

definition computeSummary_spec :: "(string \<rightharpoonup> StockData) \<Rightarrow> holding list \<Rightarrow> summary" where
  "computeSummary_spec snapshot hs =
     (let v = (\<Sum>h \<leftarrow> priced snapshot hs. shares h * price (the (snapshot (holding_symbol h))));
          c = (\<Sum>h \<leftarrow> priced snapshot hs. shares h * purchase_price h)
      in \<lparr>total_value = v,
          total_cost = c,
          total_pnl = v - c,
          total_pnl_percent = (if c = 0 then 0 else (v - c) / c * 100)\<rparr>)"

subsection \<open>\<^verbatim>\<open>update_market_data\<close> (lines 193 to 226)\<close>

definition MARKET_INDICES :: "(string \<times> string) list" where
  "MARKET_INDICES =
     [(''^GSPC'', ''S&P 500''), (''^DJI'', ''Dow Jones''), (''^IXIC'', ''NASDAQ''), (''^VIX'', ''VIX'')]"

text \<open>
  The state of a refresh: the number of calls of \<^verbatim>\<open>get_stock_data\<close> made so far, the
  stock manager and the global snapshot \<^verbatim>\<open>current_data\<close>. The outside world is a function
  from the number of a call to what that call observes. \<^verbatim>\<open>get_stock_data\<close> has no
  suspension point, so a refresh is not interleaved with another task.
\<close>

record refresh_state =
  calls :: nat
  stock_manager :: StockDataManager
  current_data :: "string \<rightharpoonup> StockData"

text \<open>One iteration of either loop (lines 213 to 215 and 219 to 221).\<close>

definition update_symbol :: "(nat \<Rightarrow> observation) \<Rightarrow> refresh_state \<Rightarrow> string \<Rightarrow> refresh_state" where
  "update_symbol world st symb =
     (case get_stock_data (world (calls st)) (stock_manager st) symb of
        (data, m') \<Rightarrow>
          \<lparr>calls = Suc (calls st),
           stock_manager = m',
           current_data = (case data of
                             Some d \<Rightarrow> (current_data st)(symb \<mapsto> d)
                           | None \<Rightarrow> current_data st)\<rparr>)"

fun update_symbols :: "(nat \<Rightarrow> observation) \<Rightarrow> refresh_state \<Rightarrow> string list \<Rightarrow> refresh_state" where
  "update_symbols world st [] = st"
| "update_symbols world st (symb # rest) = update_symbols world (update_symbol world st symb) rest"

definition update_market_data ::
  "(nat \<Rightarrow> observation) \<Rightarrow> PortfolioManager \<Rightarrow> refresh_state \<Rightarrow> refresh_state" where
  "update_market_data world pm st =
     update_symbols world (update_symbols world st (map fst MARKET_INDICES)) (watchlist pm)"

text \<open>
  The results of the calls that a run of the loop makes, in order, each with its symbol
  (a ghost function: it follows the recursion of \<open>update_symbols\<close>).
\<close>

fun outcomes :: "(nat \<Rightarrow> observation) \<Rightarrow> refresh_state \<Rightarrow> string list \<Rightarrow> (string \<times> StockData option) list" where
  "outcomes world st [] = []"
| "outcomes world st (symb # rest) =
     (symb, fst (get_stock_data (world (calls st)) (stock_manager st) symb))
       # outcomes world (update_symbol world st symb) rest"

definition refresh_outcomes ::
  "(nat \<Rightarrow> observation) \<Rightarrow> PortfolioManager \<Rightarrow> refresh_state \<Rightarrow> (string \<times> StockData option) list" where
  "refresh_outcomes world pm st =
     outcomes world st (map fst MARKET_INDICES)
       @ outcomes world (update_symbols world st (map fst MARKET_INDICES)) (watchlist pm)"

subsection \<open>Notions used by the properties\<close>

text \<open>The underlying fetch fails: the provider raises, or the history is empty (line 104).\<close>

fun fetch_fails :: "yf_response \<Rightarrow> bool" where
  "fetch_fails YfRaises = True"
| "fetch_fails (YfData info hist) = (hist = [])"

text \<open>
  The calls of a run that returned a quote for the symbol \<open>k\<close>, in the order of the run.
\<close>

definition successes :: "string \<Rightarrow> (string \<times> StockData option) list \<Rightarrow> (string \<times> StockData option) list" where
  "successes k outs = filter (\<lambda>x. fst x = k \<and> snd x \<noteq> None) outs"

text \<open>
  A watchlist in stored form: every entry is its own uppercase form. The initial watchlist
  is, and \<open>add_to_watchlist\<close> and \<open>remove_from_watchlist\<close> keep it so.
\<close>

definition stored_form :: "string list \<Rightarrow> bool" where
  "stored_form wl = list_all (\<lambda>x. upper x = x) wl"

definition zero_summary :: summary where
  "zero_summary = \<lparr>total_value = 0, total_cost = 0, total_pnl = 0, total_pnl_percent = 0\<rparr>"

subsection \<open>Concrete inputs\<close>

definition no_info :: ticker_info where
  "no_info = \<lparr>longName = None, marketCap = None, trailingPE = None, dividendYield = None\<rparr>"

text \<open>A provider that answers every symbol with one session closing at the given price.\<close>

definition one_bar :: "real \<Rightarrow> string \<Rightarrow> yf_response" where
  "one_bar p = (\<lambda>_. YfData no_info [\<lparr>Close = p, Volume = Some 1000\<rparr>])"

text \<open>A provider that answers with two sessions, and one whose history is empty.\<close>

definition two_bars :: "real \<Rightarrow> real \<Rightarrow> string \<Rightarrow> yf_response" where
  "two_bars p0 p1 =
     (\<lambda>_. YfData no_info [\<lparr>Close = p0, Volume = Some 1000\<rparr>, \<lparr>Close = p1, Volume = Some 2000\<rparr>])"

definition empty_history :: "string \<Rightarrow> yf_response" where
  "empty_history = (\<lambda>_. YfData no_info [])"

definition provider_down :: "string \<Rightarrow> yf_response" where
  "provider_down = (\<lambda>_. YfRaises)"

text \<open>An observation at second \<open>t\<close>, with the given provider.\<close>

definition at_second :: "int \<Rightarrow> (string \<Rightarrow> yf_response) \<Rightarrow> observation" where
  "at_second t r = \<lparr>now_check = t * 1000000, reply = r, now_stamp = t * 1000000\<rparr>"

text \<open>The quote that a fetch of the given symbol at second 0 stores when the close is 100.\<close>

definition quote_100 :: "string \<Rightarrow> StockData" where
  "quote_100 symb =
     \<lparr>symbol = upper symb, name = symb, price = 100, change = 0, change_percent = 0,
      volume = 1000, market_cap = None, pe_ratio = None, dividend_yield = None,
      last_updated = 0\<rparr>"

text \<open>A manager whose cache holds that quote for the given symbol, after one fetch.\<close>

definition manager_with :: "string \<Rightarrow> StockDataManager" where
  "manager_with symb = \<lparr>cache = [symb \<mapsto> quote_100 symb], fetches = [symb]\<rparr>"

text \<open>The scenario of the valuation: 10 shares of AAPL bought at 150, quoted at 165.\<close>

definition aapl_quote_165 :: StockData where
  "aapl_quote_165 =
     \<lparr>symbol = ''AAPL'', name = ''Apple Inc.'', price = 165, change = 0, change_percent = 0,
      volume = 1000, market_cap = None, pe_ratio = None, dividend_yield = None,
      last_updated = 0\<rparr>"

definition aapl_manager :: StockDataManager where
  "aapl_manager = \<lparr>cache = [''AAPL'' \<mapsto> aapl_quote_165], fetches = [''AAPL'']\<rparr>"

definition aapl_portfolio :: PortfolioManager where
  "aapl_portfolio = add_to_portfolio 0 new_PortfolioManager ''AAPL'' 10 150"

text \<open>
  A refresh at second 100 in which the provider answers for the S&P 500 index only and raises
  for every other symbol, starting from a snapshot that knows AAPL.
\<close>

definition gspc_only :: "string \<Rightarrow> yf_response" where
  "gspc_only =
     (\<lambda>s. if s = ''^GSPC'' then YfData no_info [\<lparr>Close = 5000, Volume = Some 1\<rparr>] else YfRaises)"

definition gspc_world :: "nat \<Rightarrow> observation" where
  "gspc_world = (\<lambda>_. at_second 100 gspc_only)"

definition known_state :: refresh_state where
  "known_state =
     \<lparr>calls = 0, stock_manager = manager_with ''AAPL'',
      current_data = [''AAPL'' \<mapsto> quote_100 ''AAPL'']\<rparr>"

text \<open>The quote that this refresh stores for the S&P 500 index.\<close>

definition gspc_quote :: StockData where
  "gspc_quote =
     \<lparr>symbol = ''^GSPC'', name = ''^GSPC'', price = 5000, change = 0, change_percent = 0,
      volume = 1, market_cap = None, pe_ratio = None, dividend_yield = None,
      last_updated = 100 * 1000000\<rparr>"

text \<open>
  A refresh at second 100 in which the provider answers for MSFT only, so that the indices
  and two watchlist symbols fail before the one call that returns a quote.
\<close>

definition msft_only :: "string \<Rightarrow> yf_response" where
  "msft_only =
     (\<lambda>s. if s = ''MSFT'' then YfData no_info [\<lparr>Close = 400, Volume = Some 7\<rparr>] else YfRaises)"

definition msft_world :: "nat \<Rightarrow> observation" where
  "msft_world = (\<lambda>_. at_second 100 msft_only)"

definition msft_quote :: StockData where
  "msft_quote =
     \<lparr>symbol = ''MSFT'', name = ''MSFT'', price = 400, change = 0, change_percent = 0,
      volume = 7, market_cap = None, pe_ratio = None, dividend_yield = None,
      last_updated = 100 * 1000000\<rparr>"

section \<open>Lemmas about the operations\<close>


lemma upper_char_idem: "upper_char (upper_char c) = upper_char c"
proof (cases "97 \<le> (of_char c :: nat) \<and> (of_char c :: nat) \<le> 122")
  case True
  then have "(of_char c :: nat) - 32 < 256"
    by linarith
  then have "(of_char (char_of (of_char c - 32 :: nat)) :: nat) = of_char c - 32"
    by simp
  with True show ?thesis
    by (auto simp add: upper_char_def Let_def)
next
  case False
  then have "upper_char c = c"
    unfolding upper_char_def Let_def by auto
  then show ?thesis
    by simp
qed

lemma upper_idem: "upper (upper s) = upper s"
  by (simp add: upper_def upper_char_idem)

lemma upper_aapl: "upper ''aapl'' = ''AAPL''"
  by code_simp

lemma upper_AAPL: "upper ''AAPL'' = ''AAPL''"
  by code_simp

lemma cached_fresh_Some:
  "cached_fresh ob m s = Some d \<longleftrightarrow>
     cache m s = Some d \<and> now_check ob - last_updated d < cache_duration"
  by (auto simp add: cached_fresh_def split: option.splits)


lemma get_stock_data_hit:
  "cached_fresh ob m s = Some d \<Longrightarrow> get_stock_data ob m s = (Some d, m)"
  by (simp add: get_stock_data_def)

lemma get_stock_data_fetches:
  "fetches (snd (get_stock_data ob m s)) =
     (if cached_fresh ob m s = None then fetches m @ [s] else fetches m)"
  by (auto simp add: get_stock_data_def Let_def split: option.splits yf_response.splits)

lemma get_stock_data_other_key:
  "s' \<noteq> s \<Longrightarrow> cache (snd (get_stock_data ob m s)) s' = cache m s'"
  by (auto simp add: get_stock_data_def Let_def split: option.splits yf_response.splits)

lemma get_stock_data_stores:
  "fst (get_stock_data ob m s) = Some q \<Longrightarrow> cache (snd (get_stock_data ob m s)) s = Some q"
proof (cases "cached_fresh ob m s")
  case None
  assume "fst (get_stock_data ob m s) = Some q"
  with None show ?thesis
    by (auto simp add: get_stock_data_def Let_def
        split: option.splits yf_response.splits if_splits)
next
  case (Some d)
  assume "fst (get_stock_data ob m s) = Some q"
  with Some have "d = q"
    by (simp add: get_stock_data_def)
  with Some have "cache m s = Some q"
    by (simp add: cached_fresh_Some)
  with Some show ?thesis
    by (simp add: get_stock_data_def)
qed

lemma get_stock_data_None_cache:
  "fst (get_stock_data ob m s) = None \<Longrightarrow> cache (snd (get_stock_data ob m s)) = cache m"
  by (auto simp add: get_stock_data_def Let_def split: option.splits yf_response.splits if_splits)

lemma get_stock_data_fails:
  "cached_fresh ob m s = None \<Longrightarrow> fetch_fails (reply ob s) \<Longrightarrow>
     fst (get_stock_data ob m s) = None"
  by (cases "reply ob s") (auto simp add: get_stock_data_def Let_def)

lemma make_stock_data_fields:
  "make_stock_data s info hist now = Some q \<Longrightarrow>
     symbol q = upper s \<and> last_updated q = now \<and> price q = Close (last hist)
     \<and> change_percent q = percent_change (Close (last hist)) (previous_close hist)"
  by (auto simp add: make_stock_data_def Let_def split: option.splits)

lemma get_stock_data_fetched:
  "cached_fresh ob m s = None \<Longrightarrow> fst (get_stock_data ob m s) = Some q \<Longrightarrow>
     \<exists>info hist. reply ob s = YfData info hist \<and> hist \<noteq> []
       \<and> make_stock_data s info hist (now_stamp ob) = Some q"
  by (auto simp add: get_stock_data_def Let_def split: option.splits yf_response.splits if_splits)

lemma percent_change_zero: "percent_change c 0 = 0"
  by (simp add: percent_change_def)

lemma create_tasks_running:
  "create_tasks (Some pending) hs = Inr (Some (pending @ map holding_symbol hs))"
  by (induction hs arbitrary: pending) (simp_all add: create_task_def)

lemma create_tasks_no_loop:
  "create_tasks None hs = (if hs = [] then Inr None else Inl RuntimeError)"
  by (cases hs) (simp_all add: create_task_def)

text \<open>
  Without a running event loop, the valuation returns only for the empty portfolio: the first
  \<^verbatim>\<open>asyncio.create_task\<close> raises.
\<close>

lemma portfolio_value_no_loop:
  "calculate_portfolio_value None pm stock_data_manager =
     (if portfolio pm = [] then Inr (zero_summary, None) else Inl RuntimeError)"
  by (simp add: calculate_portfolio_value_def create_tasks_no_loop zero_summary_def)

text \<open>The watchlist: its stored form is an invariant, and removal never raises.\<close>

lemma stored_form_initial: "stored_form (watchlist new_PortfolioManager)"
  by code_simp

lemma stored_form_add:
  "stored_form (watchlist pm) \<Longrightarrow> stored_form (watchlist (add_to_watchlist pm s))"
  by (simp add: stored_form_def add_to_watchlist_def Let_def upper_idem)

lemma remove_from_watchlist_eq:
  "remove_from_watchlist pm s =
     Inr (if s \<in> set (watchlist pm) then pm\<lparr>watchlist := remove1 s (watchlist pm)\<rparr> else pm)"
  by (simp add: remove_from_watchlist_def list_remove_def)

lemma stored_form_remove:
  "stored_form (watchlist pm) \<Longrightarrow> remove_from_watchlist pm s = Inr pm' \<Longrightarrow>
     stored_form (watchlist pm')"
  by (auto simp add: remove_from_watchlist_eq stored_form_def list_all_iff
      split: if_splits dest: notin_set_remove1)

lemma stored_form_member: "stored_form wl \<Longrightarrow> x \<in> set wl \<Longrightarrow> upper x = x"
  by (simp add: stored_form_def list_all_iff)

lemma add_to_watchlist_present:
  "upper s \<in> set (watchlist pm) \<Longrightarrow> add_to_watchlist pm s = pm"
  by (simp add: add_to_watchlist_def Let_def)

lemma add_to_watchlist_member: "upper s \<in> set (watchlist (add_to_watchlist pm s))"
  by (simp add: add_to_watchlist_def Let_def)

lemma add_to_watchlist_count:
  "count_list (watchlist (add_to_watchlist pm s)) (upper s) =
     (if upper s \<in> set (watchlist pm) then count_list (watchlist pm) (upper s) else 1)"
  by (simp add: add_to_watchlist_def Let_def count_list_0_iff)

lemma aapl_in_initial: "''AAPL'' \<in> set (watchlist new_PortfolioManager)"
  by (simp add: new_PortfolioManager_def)

lemma count_aapl_initial: "count_list (watchlist new_PortfolioManager) ''AAPL'' = 1"
  by (simp add: new_PortfolioManager_def)

lemma aapl_lower_not_in_initial: "''aapl'' \<notin> set (watchlist new_PortfolioManager)"
  by (simp add: new_PortfolioManager_def)

text \<open>A first fetch at second 0, answered with a single close of 100.\<close>

lemma fetch_at_0:
  "get_stock_data (at_second 0 (one_bar 100)) new_StockDataManager s
     = (Some (quote_100 s), manager_with s)"
  by (simp add: get_stock_data_def cached_fresh_def new_StockDataManager_def at_second_def
      one_bar_def make_stock_data_def previous_close_def percent_change_def quote_100_def
      no_info_def manager_with_def)

text \<open>The refresh loop: both loops are one pass over the indices followed by the watchlist.\<close>

lemma update_symbol_current_data:
  "current_data (update_symbol world st s) =
     (case fst (get_stock_data (world (calls st)) (stock_manager st) s) of
        Some d \<Rightarrow> (current_data st)(s \<mapsto> d)
      | None \<Rightarrow> current_data st)"
  by (simp add: update_symbol_def split: prod.splits)

lemma update_symbols_append:
  "update_symbols world st (xs @ ys) = update_symbols world (update_symbols world st xs) ys"
  by (induction xs arbitrary: st) simp_all

lemma outcomes_append:
  "outcomes world st (xs @ ys) =
     outcomes world st xs @ outcomes world (update_symbols world st xs) ys"
  by (induction xs arbitrary: st) simp_all

lemma update_market_data_eq:
  "update_market_data world pm st =
     update_symbols world st (map fst MARKET_INDICES @ watchlist pm)"
  by (simp add: update_market_data_def update_symbols_append)

lemma refresh_outcomes_eq:
  "refresh_outcomes world pm st = outcomes world st (map fst MARKET_INDICES @ watchlist pm)"
  by (simp add: refresh_outcomes_def outcomes_append)

lemma update_symbols_dom:
  "dom (current_data st) \<subseteq> dom (current_data (update_symbols world st syms))"
proof (induction syms arbitrary: st)
  case Nil
  show ?case by simp
next
  case (Cons a syms)
  have "dom (current_data st) \<subseteq> dom (current_data (update_symbol world st a))"
    by (auto simp add: update_symbol_current_data split: option.splits)
  also have "\<dots> \<subseteq> dom (current_data (update_symbols world (update_symbol world st a) syms))"
    by (rule Cons.IH)
  finally show ?case by simp
qed

lemma update_symbols_keeps:
  "\<forall>x \<in> set (outcomes world st syms). fst x = k \<longrightarrow> snd x = None \<Longrightarrow>
     current_data (update_symbols world st syms) k = current_data st k"
proof (induction syms arbitrary: st)
  case Nil
  show ?case by simp
next
  case (Cons a syms)
  from Cons.prems have here: "a = k \<longrightarrow> fst (get_stock_data (world (calls st)) (stock_manager st) a) = None"
    by simp
  from Cons.prems have rest:
    "\<forall>x \<in> set (outcomes world (update_symbol world st a) syms). fst x = k \<longrightarrow> snd x = None"
    by simp
  have "current_data (update_symbol world st a) k = current_data st k"
    using here by (auto simp add: update_symbol_current_data split: option.splits)
  with Cons.IH [OF rest] show ?case
    by simp
qed

lemma update_symbols_source:
  "current_data (update_symbols world st syms) k = current_data st k
   \<or> (\<exists>d. (k, Some d) \<in> set (outcomes world st syms)
        \<and> current_data (update_symbols world st syms) k = Some d)"
proof (induction syms arbitrary: st)
  case Nil
  show ?case by simp
next
  case (Cons a syms)
  let ?st1 = "update_symbol world st a"
  from Cons.IH [of ?st1] show ?case
  proof
    assume same: "current_data (update_symbols world ?st1 syms) k = current_data ?st1 k"
    show ?thesis
    proof (cases "a = k \<and> fst (get_stock_data (world (calls st)) (stock_manager st) a) \<noteq> None")
      case True
      then obtain d where d: "fst (get_stock_data (world (calls st)) (stock_manager st) a) = Some d"
        by blast
      with True same have "current_data (update_symbols world ?st1 syms) k = Some d"
        by (simp add: update_symbol_current_data)
      with True d show ?thesis
        by auto
    next
      case False
      then have "current_data ?st1 k = current_data st k"
        by (auto simp add: update_symbol_current_data split: option.splits)
      with same show ?thesis
        by simp
    qed
  next
    assume "\<exists>d. (k, Some d) \<in> set (outcomes world ?st1 syms)
        \<and> current_data (update_symbols world ?st1 syms) k = Some d"
    then show ?thesis
      by auto
  qed
qed

text \<open>The refresh in which only the S&P 500 index is answered.\<close>

lemma refresh_outcomes_example:
  "map (\<lambda>x. (fst x, snd x \<noteq> None))
       (refresh_outcomes gspc_world new_PortfolioManager known_state)
     = [(''^GSPC'', True), (''^DJI'', False), (''^IXIC'', False), (''^VIX'', False),
        (''AAPL'', False), (''GOOGL'', False), (''MSFT'', False), (''TSLA'', False),
        (''AMZN'', False), (''NVDA'', False), (''META'', False), (''NFLX'', False)]"
  by (simp add: refresh_outcomes_def MARKET_INDICES_def new_PortfolioManager_def known_state_def
      update_symbol_def get_stock_data_def gspc_world_def at_second_def gspc_only_def
      cached_fresh_def manager_with_def quote_100_def cache_duration_def make_stock_data_def
      previous_close_def percent_change_def no_info_def)

lemma aapl_fails_in_example:
  "\<forall>x \<in> set (refresh_outcomes gspc_world new_PortfolioManager known_state).
     fst x = ''AAPL'' \<longrightarrow> snd x = None"
proof -
  have "\<forall>y \<in> set (map (\<lambda>x. (fst x, snd x \<noteq> None))
       (refresh_outcomes gspc_world new_PortfolioManager known_state)).
     fst y = ''AAPL'' \<longrightarrow> \<not> snd y"
    unfolding refresh_outcomes_example by simp
  then show ?thesis
    by simp
qed

text \<open>What a step writes, and what a whole pass leaves for a symbol.\<close>

lemma upper_gspc: "upper ''^GSPC'' = ''^GSPC''"
  by code_simp

lemma update_symbol_writes:
  "fst (get_stock_data (world (calls st)) (stock_manager st) s) = Some d \<Longrightarrow>
     current_data (update_symbol world st s) = (current_data st)(s \<mapsto> d)"
  by (simp add: update_symbol_current_data)

lemma update_symbols_last:
  "current_data (update_symbols world st syms) k =
     (if successes k (outcomes world st syms) = [] then current_data st k
      else snd (last (successes k (outcomes world st syms))))"
proof (induction syms arbitrary: st)
  case Nil
  show ?case by (simp add: successes_def)
next
  case (Cons a syms)
  let ?r = "fst (get_stock_data (world (calls st)) (stock_manager st) a)"
  let ?st1 = "update_symbol world st a"
  let ?ok' = "successes k (outcomes world ?st1 syms)"
  have run: "current_data (update_symbols world st (a # syms)) k =
      (if ?ok' = [] then current_data ?st1 k else snd (last ?ok'))"
    using Cons.IH [of ?st1] by simp
  show ?case
  proof (cases "a = k \<and> ?r \<noteq> None")
    case True
    then obtain d where d: "?r = Some d"
      by blast
    with True have here: "current_data ?st1 k = Some d"
      by (simp add: update_symbol_current_data)
    from True d have "successes k (outcomes world st (a # syms)) = (k, Some d) # ?ok'"
      by (simp add: successes_def)
    with run here show ?thesis
      by simp
  next
    case False
    then have here: "current_data ?st1 k = current_data st k"
      by (auto simp add: update_symbol_current_data split: option.splits)
    from False have "successes k (outcomes world st (a # syms)) = ?ok'"
      by (auto simp add: successes_def)
    with run here show ?thesis
      by simp
  qed
qed

lemma refresh_outcomes_quotes:
  "refresh_outcomes gspc_world new_PortfolioManager known_state
     = [(''^GSPC'', Some gspc_quote), (''^DJI'', None), (''^IXIC'', None), (''^VIX'', None),
        (''AAPL'', None), (''GOOGL'', None), (''MSFT'', None), (''TSLA'', None),
        (''AMZN'', None), (''NVDA'', None), (''META'', None), (''NFLX'', None)]"
  by (simp add: refresh_outcomes_def MARKET_INDICES_def new_PortfolioManager_def known_state_def
      update_symbol_def get_stock_data_def gspc_world_def at_second_def gspc_only_def
      cached_fresh_def manager_with_def quote_100_def cache_duration_def make_stock_data_def
      previous_close_def percent_change_def no_info_def gspc_quote_def upper_gspc)

text \<open>The refresh in which only MSFT is answered.\<close>

lemma upper_msft: "upper ''MSFT'' = ''MSFT''"
  by code_simp

lemma refresh_outcomes_msft:
  "refresh_outcomes msft_world new_PortfolioManager known_state
     = [(''^GSPC'', None), (''^DJI'', None), (''^IXIC'', None), (''^VIX'', None),
        (''AAPL'', None), (''GOOGL'', None), (''MSFT'', Some msft_quote), (''TSLA'', None),
        (''AMZN'', None), (''NVDA'', None), (''META'', None), (''NFLX'', None)]"
  by (simp add: refresh_outcomes_def MARKET_INDICES_def new_PortfolioManager_def known_state_def
      update_symbol_def get_stock_data_def msft_world_def at_second_def msft_only_def
      cached_fresh_def manager_with_def quote_100_def cache_duration_def make_stock_data_def
      previous_close_def percent_change_def no_info_def msft_quote_def upper_msft)

lemma successes_msft:
  "successes ''MSFT'' (refresh_outcomes msft_world new_PortfolioManager known_state)
     = [(''MSFT'', Some msft_quote)]"
  by (simp add: refresh_outcomes_msft successes_def)

lemma successes_aapl_msft:
  "successes ''AAPL'' (refresh_outcomes msft_world new_PortfolioManager known_state) = []"
  by (simp add: refresh_outcomes_msft successes_def)

section \<open>The valuation of the portfolio\<close>

text \<open>
  Claim C1. The valuation is to return the sum of shares times current price and the sum of
  shares times purchase price over the holdings that have a quote; 10 shares of AAPL bought
  at 150 and quoted at 165 are to give 1650, 1500, 150 and 10 percent. The code does not: on
  that very input, with the quote in the manager's cache and the event loop running,
  \<open>calculate_portfolio_value\<close> returns four zeros and leaves one pending task behind, where
  the contract of the specification gives 1650, 1500, 150 and 10.
\<close>

theorem portfolio_value_misses_contract:
  "calculate_portfolio_value (Some []) aapl_portfolio aapl_manager
     = Inr (\<lparr>total_value = 0, total_cost = 0, total_pnl = 0, total_pnl_percent = 0\<rparr>,
            Some [''AAPL''])
   \<and> cache aapl_manager ''AAPL'' = Some aapl_quote_165
   \<and> price aapl_quote_165 = 165
   \<and> portfolio aapl_portfolio
       = [\<lparr>holding_symbol = ''AAPL'', shares = 10, purchase_price = 150, purchase_date = 0\<rparr>]
   \<and> computeSummary_spec (cache aapl_manager) (portfolio aapl_portfolio)
       = \<lparr>total_value = 1650, total_cost = 1500, total_pnl = 150, total_pnl_percent = 10\<rparr>"
  by (simp add: calculate_portfolio_value_def create_task_def computeSummary_spec_def priced_def
      aapl_portfolio_def add_to_portfolio_def new_PortfolioManager_def aapl_manager_def
      aapl_quote_165_def upper_AAPL)

text \<open>
  Claim C2. Called on the running event loop, \<open>calculate_portfolio_value\<close> returns
  total value 0, total cost 0, profit 0 and percentage 0 for every portfolio and every stock
  manager, whatever quotes are available: it only schedules one \<open>get_stock_data\<close> task
  for each holding, in order, behind the tasks already pending, and reads none of their
  results.
\<close>

theorem portfolio_value_always_zero:
  "calculate_portfolio_value (Some pending) pm stock_data_manager =
     Inr (\<lparr>total_value = 0, total_cost = 0, total_pnl = 0, total_pnl_percent = 0\<rparr>,
          Some (pending @ map holding_symbol (portfolio pm)))"
  by (simp add: calculate_portfolio_value_def create_tasks_running)

section \<open>The quote cache\<close>

text \<open>
  Claim C7. When a call of \<open>get_stock_data\<close> fetches a history whose prior close is 0 and
  returns a quote, the percent change of that quote is 0, whatever the current close is.
  The prior close is the close before the last one, or the last one when the history has a
  single session.
\<close>

theorem percent_change_guarded:
  assumes "cached_fresh ob m s = None"
    and "fst (get_stock_data ob m s) = Some q"
    and "reply ob s = YfData info hist"
    and "previous_close hist = 0"
  shows "change_percent q = 0"
proof -
  from assms(1,2) obtain info' hist' where
    "reply ob s = YfData info' hist'" and "make_stock_data s info' hist' (now_stamp ob) = Some q"
    using get_stock_data_fetched by blast
  with assms(3) have "make_stock_data s info hist (now_stamp ob) = Some q"
    by simp
  then have "change_percent q = percent_change (Close (last hist)) (previous_close hist)"
    by (simp add: make_stock_data_fields)
  with assms(4) show ?thesis
    by (simp add: percent_change_zero)
qed

theorem percent_change_guarded_witness:
  "cached_fresh (at_second 0 (two_bars 0 5)) new_StockDataManager ''AAPL'' = None
   \<and> fst (get_stock_data (at_second 0 (two_bars 0 5)) new_StockDataManager ''AAPL'')
       = Some \<lparr>symbol = ''AAPL'', name = ''AAPL'', price = 5, change = 5, change_percent = 0,
               volume = 2000, market_cap = None, pe_ratio = None, dividend_yield = None,
               last_updated = 0\<rparr>
   \<and> reply (at_second 0 (two_bars 0 5)) ''AAPL''
       = YfData no_info [\<lparr>Close = 0, Volume = Some 1000\<rparr>, \<lparr>Close = 5, Volume = Some 2000\<rparr>]
   \<and> previous_close [\<lparr>Close = 0, Volume = Some 1000\<rparr>, \<lparr>Close = 5, Volume = Some 2000\<rparr>] = 0
   \<and> change_percent (the (fst (get_stock_data (at_second 0 (two_bars 0 5)) new_StockDataManager ''AAPL''))) = 0"
proof -
  have h1: "cached_fresh (at_second 0 (two_bars 0 5)) new_StockDataManager ''AAPL'' = None"
    by (simp add: cached_fresh_def new_StockDataManager_def)
  have h3: "reply (at_second 0 (two_bars 0 5)) ''AAPL''
       = YfData no_info [\<lparr>Close = 0, Volume = Some 1000\<rparr>, \<lparr>Close = 5, Volume = Some 2000\<rparr>]"
    by (simp add: at_second_def two_bars_def)
  have h4: "previous_close [\<lparr>Close = 0, Volume = Some 1000\<rparr>, \<lparr>Close = 5, Volume = Some 2000\<rparr>] = 0"
    by (simp add: previous_close_def)
  have h2: "fst (get_stock_data (at_second 0 (two_bars 0 5)) new_StockDataManager ''AAPL'')
       = Some \<lparr>symbol = ''AAPL'', name = ''AAPL'', price = 5, change = 5, change_percent = 0,
               volume = 2000, market_cap = None, pe_ratio = None, dividend_yield = None,
               last_updated = 0\<rparr>"
    by (simp add: get_stock_data_def cached_fresh_def new_StockDataManager_def at_second_def
        two_bars_def make_stock_data_def previous_close_def percent_change_def upper_AAPL
        no_info_def)
  from percent_change_guarded [OF h1 h2 h3 h4] h1 h2 h3 h4 show ?thesis
    by simp
qed



text \<open>
  Claim C4. Whenever \<open>get_stock_data\<close> returns \<open>None\<close> the cache is exactly what it was
  before the call; and when the call goes to the provider (no fresh entry) and the provider
  raises or has no history, the call returns \<open>None\<close>, so that the cache is unchanged: a
  prior quote stays, and nothing is added.
\<close>

theorem failed_fetch_keeps_cache:
  "(fst (get_stock_data ob m s) = None \<longrightarrow> cache (snd (get_stock_data ob m s)) = cache m)
   \<and> (cached_fresh ob m s = None \<and> fetch_fails (reply ob s) \<longrightarrow>
        fst (get_stock_data ob m s) = None \<and> cache (snd (get_stock_data ob m s)) = cache m)"
  using get_stock_data_None_cache [of ob m s] get_stock_data_fails [of ob m s]
  by simp

theorem failed_fetch_keeps_cache_witness:
  "cached_fresh (at_second 100 provider_down) (manager_with ''AAPL'') ''AAPL'' = None
   \<and> fetch_fails (reply (at_second 100 provider_down) ''AAPL'')
   \<and> fst (get_stock_data (at_second 100 provider_down) (manager_with ''AAPL'') ''AAPL'') = None
   \<and> cache (snd (get_stock_data (at_second 100 provider_down) (manager_with ''AAPL'') ''AAPL''))
       = cache (manager_with ''AAPL'')
   \<and> cache (manager_with ''AAPL'') ''AAPL'' = Some (quote_100 ''AAPL'')
   \<and> cached_fresh (at_second 100 empty_history) new_StockDataManager ''MSFT'' = None
   \<and> fetch_fails (reply (at_second 100 empty_history) ''MSFT'')
   \<and> fst (get_stock_data (at_second 100 empty_history) new_StockDataManager ''MSFT'') = None
   \<and> cache (snd (get_stock_data (at_second 100 empty_history) new_StockDataManager ''MSFT''))
       = cache new_StockDataManager"
proof -
  have a: "cached_fresh (at_second 100 provider_down) (manager_with ''AAPL'') ''AAPL'' = None"
    by (simp add: cached_fresh_def manager_with_def at_second_def quote_100_def
        cache_duration_def)
  have b: "fetch_fails (reply (at_second 100 provider_down) ''AAPL'')"
    by (simp add: at_second_def provider_down_def)
  have c: "cached_fresh (at_second 100 empty_history) new_StockDataManager ''MSFT'' = None"
    by (simp add: cached_fresh_def new_StockDataManager_def)
  have d: "fetch_fails (reply (at_second 100 empty_history) ''MSFT'')"
    by (simp add: at_second_def empty_history_def)
  have e: "cache (manager_with ''AAPL'') ''AAPL'' = Some (quote_100 ''AAPL'')"
    by (simp add: manager_with_def)
  from failed_fetch_keeps_cache [of "at_second 100 provider_down" "manager_with ''AAPL''" "''AAPL''"]
    failed_fetch_keeps_cache [of "at_second 100 empty_history" new_StockDataManager "''MSFT''"]
    a b c d e
  show ?thesis
    by simp
qed

text \<open>
  Claim C5, as stated, fails: the symbol is not normalised for the cache. After a fetch for
  \<^verbatim>\<open>"aapl"\<close> at second 0 the entry is under the key \<^verbatim>\<open>"aapl"\<close> (only the symbol field
  of the quote is \<^verbatim>\<open>"AAPL"\<close>), there is no entry under \<^verbatim>\<open>"AAPL"\<close>, and a call for
  \<^verbatim>\<open>"AAPL"\<close> at second 30 makes a second fetch.
\<close>

theorem cache_key_not_normalised:
  "fst (get_stock_data (at_second 0 (one_bar 100)) new_StockDataManager ''aapl'')
     = Some (quote_100 ''aapl'')
   \<and> snd (get_stock_data (at_second 0 (one_bar 100)) new_StockDataManager ''aapl'')
       = manager_with ''aapl''
   \<and> symbol (quote_100 ''aapl'') = ''AAPL''
   \<and> cache (manager_with ''aapl'') ''aapl'' = Some (quote_100 ''aapl'')
   \<and> cache (manager_with ''aapl'') ''AAPL'' = None
   \<and> fetches (manager_with ''aapl'') = [''aapl'']
   \<and> fetches (snd (get_stock_data (at_second 30 (one_bar 100)) (manager_with ''aapl'') ''AAPL''))
       = [''aapl'', ''AAPL'']"
  by (simp add: fetch_at_0 get_stock_data_fetches cached_fresh_def manager_with_def
      quote_100_def upper_aapl)

text \<open>
  Claim C5, amended. \<open>get_stock_data\<close> reads and writes the cache under the symbol exactly
  as it is given: a call writes no key but its own, a returned quote is the entry of the
  given symbol after the call, a fetched quote carries the uppercase form in its symbol
  field only, a symbol with no entry of its own is fetched whatever other spellings hold,
  and a fresh entry under the given symbol is returned without a fetch.
\<close>

theorem cache_key_is_given_symbol:
  "(s' \<noteq> s \<longrightarrow> cache (snd (get_stock_data ob m s)) s' = cache m s')
   \<and> (fst (get_stock_data ob m s) = Some q \<longrightarrow> cache (snd (get_stock_data ob m s)) s = Some q)
   \<and> (cached_fresh ob m s = None \<and> fst (get_stock_data ob m s) = Some q \<longrightarrow> symbol q = upper s)
   \<and> (cache m s = None \<longrightarrow> fetches (snd (get_stock_data ob m s)) = fetches m @ [s])
   \<and> (cache m s = Some q \<and> now_check ob - last_updated q < cache_duration \<longrightarrow>
        get_stock_data ob m s = (Some q, m))"
proof -
  have a: "s' \<noteq> s \<longrightarrow> cache (snd (get_stock_data ob m s)) s' = cache m s'"
    by (simp add: get_stock_data_other_key)
  have b: "fst (get_stock_data ob m s) = Some q \<longrightarrow> cache (snd (get_stock_data ob m s)) s = Some q"
    by (simp add: get_stock_data_stores)
  have c: "cached_fresh ob m s = None \<and> fst (get_stock_data ob m s) = Some q \<longrightarrow> symbol q = upper s"
    using get_stock_data_fetched [of ob m s q] make_stock_data_fields by blast
  have d: "cache m s = None \<longrightarrow> fetches (snd (get_stock_data ob m s)) = fetches m @ [s]"
    by (simp add: get_stock_data_fetches cached_fresh_def)
  have e: "cache m s = Some q \<and> now_check ob - last_updated q < cache_duration \<longrightarrow>
        get_stock_data ob m s = (Some q, m)"
    using get_stock_data_hit [of ob m s q] by (simp add: cached_fresh_Some)
  from a b c d e show ?thesis
    by blast
qed

theorem cache_key_is_given_symbol_witness:
  "''AAPL'' \<noteq> ''aapl''
   \<and> cache (snd (get_stock_data (at_second 0 (one_bar 100)) new_StockDataManager ''aapl'')) ''AAPL''
       = cache new_StockDataManager ''AAPL''
   \<and> fst (get_stock_data (at_second 0 (one_bar 100)) new_StockDataManager ''aapl'')
       = Some (quote_100 ''aapl'')
   \<and> cache (snd (get_stock_data (at_second 0 (one_bar 100)) new_StockDataManager ''aapl'')) ''aapl''
       = Some (quote_100 ''aapl'')
   \<and> cached_fresh (at_second 0 (one_bar 100)) new_StockDataManager ''aapl'' = None
   \<and> symbol (quote_100 ''aapl'') = upper ''aapl''
   \<and> cache new_StockDataManager ''aapl'' = None
   \<and> fetches (snd (get_stock_data (at_second 0 (one_bar 100)) new_StockDataManager ''aapl''))
       = fetches new_StockDataManager @ [''aapl'']
   \<and> cache (manager_with ''aapl'') ''aapl'' = Some (quote_100 ''aapl'')
   \<and> now_check (at_second 30 provider_down) - last_updated (quote_100 ''aapl'') < cache_duration
   \<and> get_stock_data (at_second 30 provider_down) (manager_with ''aapl'') ''aapl''
       = (Some (quote_100 ''aapl''), manager_with ''aapl'')"
proof -
  have h1: "''AAPL'' \<noteq> ''aapl''"
    by simp
  have h2: "fst (get_stock_data (at_second 0 (one_bar 100)) new_StockDataManager ''aapl'')
       = Some (quote_100 ''aapl'')"
    by (simp add: fetch_at_0)
  have h3: "cached_fresh (at_second 0 (one_bar 100)) new_StockDataManager ''aapl'' = None"
    by (simp add: cached_fresh_def new_StockDataManager_def)
  have h4: "cache new_StockDataManager ''aapl'' = None"
    by (simp add: new_StockDataManager_def)
  have h5: "cache (manager_with ''aapl'') ''aapl'' = Some (quote_100 ''aapl'')"
    by (simp add: manager_with_def)
  have h6: "now_check (at_second 30 provider_down) - last_updated (quote_100 ''aapl'')
      < cache_duration"
    by (simp add: at_second_def quote_100_def cache_duration_def)
  from cache_key_is_given_symbol [of "''AAPL''" "''aapl''" "at_second 0 (one_bar 100)"
      new_StockDataManager "quote_100 ''aapl''"]
    cache_key_is_given_symbol [of "''AAPL''" "''aapl''" "at_second 30 provider_down"
      "manager_with ''aapl''" "quote_100 ''aapl''"]
    h1 h2 h3 h4 h5 h6
  show ?thesis
    by simp
qed

section \<open>The portfolio ledger\<close>

text \<open>
  Claim C6, as stated, fails: \<open>add_to_portfolio\<close> rejects nothing. With \<open>- 5\<close> shares at
  price 0 the empty portfolio gets a holding.
\<close>

theorem add_to_portfolio_rejects_nothing:
  "portfolio new_PortfolioManager = []
   \<and> portfolio (add_to_portfolio 0 new_PortfolioManager ''AAPL'' (- 5) 0)
       = [\<lparr>holding_symbol = ''AAPL'', shares = - 5, purchase_price = 0, purchase_date = 0\<rparr>]"
  by (simp add: add_to_portfolio_def new_PortfolioManager_def upper_AAPL)

text \<open>
  Claim C6, amended. \<open>add_to_portfolio\<close> makes no check of its arguments: for every symbol,
  number of shares and purchase price it appends one holding, with the symbol in uppercase
  and the shares and price as given, behind the holdings already there, which stay as they
  are; the watchlist is not touched.
\<close>

theorem add_to_portfolio_appends:
  "portfolio (add_to_portfolio now pm s n p)
     = portfolio pm @ [\<lparr>holding_symbol = upper s, shares = n, purchase_price = p,
                        purchase_date = now\<rparr>]
   \<and> length (portfolio (add_to_portfolio now pm s n p)) = Suc (length (portfolio pm))
   \<and> take (length (portfolio pm)) (portfolio (add_to_portfolio now pm s n p)) = portfolio pm
   \<and> watchlist (add_to_portfolio now pm s n p) = watchlist pm"
  by (simp add: add_to_portfolio_def)

text \<open>
  Claim C8. Adding a symbol whose uppercase form is in the watchlist leaves the portfolio
  manager unchanged; so does adding a symbol that is itself in a watchlist in stored form;
  adding the same symbol twice is adding it once, and then its uppercase form occurs exactly
  once if it occurred at most once before. Removing a symbol that is not in the watchlist
  returns the manager unchanged, and \<open>remove_from_watchlist\<close> never raises.
\<close>

theorem watchlist_idempotent:
  "(upper s \<in> set (watchlist pm) \<longrightarrow> add_to_watchlist pm s = pm)
   \<and> (stored_form (watchlist pm) \<and> s \<in> set (watchlist pm) \<longrightarrow> add_to_watchlist pm s = pm)
   \<and> add_to_watchlist (add_to_watchlist pm s) s = add_to_watchlist pm s
   \<and> (count_list (watchlist pm) (upper s) \<le> 1 \<longrightarrow>
        count_list (watchlist (add_to_watchlist (add_to_watchlist pm s) s)) (upper s) = 1)
   \<and> (s \<notin> set (watchlist pm) \<longrightarrow> remove_from_watchlist pm s = Inr pm)
   \<and> remove_from_watchlist pm s \<noteq> Inl e"
proof -
  have a: "upper s \<in> set (watchlist pm) \<longrightarrow> add_to_watchlist pm s = pm"
    by (simp add: add_to_watchlist_present)
  have b: "stored_form (watchlist pm) \<and> s \<in> set (watchlist pm) \<longrightarrow> add_to_watchlist pm s = pm"
    using stored_form_member [of "watchlist pm" s] by (auto simp add: add_to_watchlist_present)
  have c: "add_to_watchlist (add_to_watchlist pm s) s = add_to_watchlist pm s"
    using add_to_watchlist_member [of s pm] by (rule add_to_watchlist_present)
  have d: "count_list (watchlist pm) (upper s) \<le> 1 \<longrightarrow>
      count_list (watchlist (add_to_watchlist (add_to_watchlist pm s) s)) (upper s) = 1"
  proof
    assume le: "count_list (watchlist pm) (upper s) \<le> 1"
    show "count_list (watchlist (add_to_watchlist (add_to_watchlist pm s) s)) (upper s) = 1"
    proof (cases "upper s \<in> set (watchlist pm)")
      case True
      then have "count_list (watchlist pm) (upper s) \<noteq> 0"
        by (simp add: count_list_0_iff)
      with le have "count_list (watchlist pm) (upper s) = 1"
        by linarith
      with True show ?thesis
        by (simp add: c add_to_watchlist_count)
    next
      case False
      then show ?thesis
        by (simp add: c add_to_watchlist_count)
    qed
  qed
  have e: "s \<notin> set (watchlist pm) \<longrightarrow> remove_from_watchlist pm s = Inr pm"
    by (simp add: remove_from_watchlist_eq)
  have f: "remove_from_watchlist pm s \<noteq> Inl e"
    by (simp add: remove_from_watchlist_eq)
  from a b c d e f show ?thesis
    by blast
qed

theorem watchlist_idempotent_witness:
  "upper ''aapl'' \<in> set (watchlist new_PortfolioManager)
   \<and> add_to_watchlist new_PortfolioManager ''aapl'' = new_PortfolioManager
   \<and> stored_form (watchlist new_PortfolioManager)
   \<and> ''AAPL'' \<in> set (watchlist new_PortfolioManager)
   \<and> add_to_watchlist new_PortfolioManager ''AAPL'' = new_PortfolioManager
   \<and> count_list (watchlist new_PortfolioManager) (upper ''AAPL'') \<le> 1
   \<and> count_list (watchlist (add_to_watchlist (add_to_watchlist new_PortfolioManager ''AAPL'')
        ''AAPL'')) ''AAPL'' = 1
   \<and> ''aapl'' \<notin> set (watchlist new_PortfolioManager)
   \<and> remove_from_watchlist new_PortfolioManager ''aapl'' = Inr new_PortfolioManager"
  using watchlist_idempotent [of "''aapl''" new_PortfolioManager]
    watchlist_idempotent [of "''AAPL''" new_PortfolioManager]
    stored_form_initial aapl_in_initial count_aapl_initial aapl_lower_not_in_initial
  by (simp add: upper_aapl upper_AAPL)

text \<open>
  Claim C10. \<open>add_to_watchlist\<close> stores the uppercase form of its argument, and
  \<open>remove_from_watchlist\<close> compares its argument as it is: on a watchlist in stored form
  that holds the uppercase form of \<open>s\<close>, removing a spelling \<open>s\<close> that is not this
  uppercase form changes nothing; and on any watchlist, an entry other than the argument
  is still there after the removal.
\<close>

theorem remove_is_case_sensitive:
  "upper s \<in> set (watchlist (add_to_watchlist pm s))
   \<and> (stored_form (watchlist pm) \<and> upper s \<in> set (watchlist pm) \<and> s \<noteq> upper s \<longrightarrow>
        remove_from_watchlist pm s = Inr pm)
   \<and> (u \<in> set (watchlist pm) \<and> s \<noteq> u \<and> remove_from_watchlist pm s = Inr pm' \<longrightarrow>
        u \<in> set (watchlist pm'))"
proof -
  have a: "upper s \<in> set (watchlist (add_to_watchlist pm s))"
    by (rule add_to_watchlist_member)
  have b: "stored_form (watchlist pm) \<and> upper s \<in> set (watchlist pm) \<and> s \<noteq> upper s \<longrightarrow>
        remove_from_watchlist pm s = Inr pm"
  proof
    assume h: "stored_form (watchlist pm) \<and> upper s \<in> set (watchlist pm) \<and> s \<noteq> upper s"
    then have "s \<notin> set (watchlist pm)"
      using stored_form_member [of "watchlist pm" s] by auto
    then show "remove_from_watchlist pm s = Inr pm"
      by (simp add: remove_from_watchlist_eq)
  qed
  have c: "u \<in> set (watchlist pm) \<and> s \<noteq> u \<and> remove_from_watchlist pm s = Inr pm' \<longrightarrow>
        u \<in> set (watchlist pm')"
    by (auto simp add: remove_from_watchlist_eq split: if_splits)
  from a b c show ?thesis
    by blast
qed

theorem remove_is_case_sensitive_witness:
  "stored_form (watchlist new_PortfolioManager)
   \<and> upper ''aapl'' \<in> set (watchlist new_PortfolioManager)
   \<and> ''aapl'' \<noteq> upper ''aapl''
   \<and> remove_from_watchlist new_PortfolioManager ''aapl'' = Inr new_PortfolioManager
   \<and> ''AAPL'' \<in> set (watchlist new_PortfolioManager)"
  using remove_is_case_sensitive [of "''aapl''" new_PortfolioManager "''AAPL''" new_PortfolioManager]
    stored_form_initial aapl_in_initial
  by (simp add: upper_aapl)

section \<open>The refresh of the snapshot\<close>

text \<open>
  Claim C9. A run of \<open>update_market_data\<close> calls \<open>get_stock_data\<close> once for each market
  index and then once for each watchlist symbol, and updates the snapshot symbol by symbol:
  no key of the snapshot is lost; a symbol all of whose calls in the run return nothing (and
  a symbol that is not tracked) keeps the entry it had, or stays absent; every entry after
  the run is the old one or a quote that a call of the run returned for that symbol; in one
  step, a failed call leaves the whole snapshot as it is, and a call for one symbol leaves
  the entries of all other symbols as they are. The quotes are written: in one step, a call
  that returns a quote stores it under its symbol and changes nothing else; after the run,
  the entry of a symbol is the quote of the last call of the run that returned one for it,
  and the old entry when there is no such call, so that a failure neither stops the run
  nor hides a quote returned before or after it.
\<close>

theorem snapshot_updated_incrementally:
  "dom (current_data st) \<subseteq> dom (current_data (update_market_data world pm st))
   \<and> ((\<forall>x \<in> set (refresh_outcomes world pm st). fst x = k \<longrightarrow> snd x = None) \<longrightarrow>
        current_data (update_market_data world pm st) k = current_data st k)
   \<and> (current_data (update_market_data world pm st) k = current_data st k
        \<or> (\<exists>d. (k, Some d) \<in> set (refresh_outcomes world pm st)
             \<and> current_data (update_market_data world pm st) k = Some d))
   \<and> (fst (get_stock_data (world (calls st)) (stock_manager st) s) = None \<longrightarrow>
        current_data (update_symbol world st s) = current_data st)
   \<and> (k \<noteq> s \<longrightarrow> current_data (update_symbol world st s) k = current_data st k)
   \<and> map fst (refresh_outcomes world pm st) = map fst MARKET_INDICES @ watchlist pm
   \<and> (fst (get_stock_data (world (calls st)) (stock_manager st) s) = Some d \<longrightarrow>
        current_data (update_symbol world st s) = (current_data st)(s \<mapsto> d))
   \<and> current_data (update_market_data world pm st) k =
        (if successes k (refresh_outcomes world pm st) = [] then current_data st k
         else snd (last (successes k (refresh_outcomes world pm st))))
   \<and> ((k, Some d) \<in> set (refresh_outcomes world pm st) \<longrightarrow>
        current_data (update_market_data world pm st) k \<noteq> None)"
proof -
  let ?syms = "map fst MARKET_INDICES @ watchlist pm"
  have a: "dom (current_data st) \<subseteq> dom (current_data (update_market_data world pm st))"
    by (simp add: update_market_data_eq update_symbols_dom)
  have b: "(\<forall>x \<in> set (refresh_outcomes world pm st). fst x = k \<longrightarrow> snd x = None) \<longrightarrow>
        current_data (update_market_data world pm st) k = current_data st k"
    unfolding update_market_data_eq refresh_outcomes_eq
    using update_symbols_keeps [of world st ?syms k] by blast
  have c: "current_data (update_market_data world pm st) k = current_data st k
        \<or> (\<exists>d. (k, Some d) \<in> set (refresh_outcomes world pm st)
             \<and> current_data (update_market_data world pm st) k = Some d)"
    unfolding update_market_data_eq refresh_outcomes_eq
    by (rule update_symbols_source)
  have d: "fst (get_stock_data (world (calls st)) (stock_manager st) s) = None \<longrightarrow>
        current_data (update_symbol world st s) = current_data st"
    by (simp add: update_symbol_current_data)
  have e: "k \<noteq> s \<longrightarrow> current_data (update_symbol world st s) k = current_data st k"
    by (simp add: update_symbol_current_data split: option.splits)
  have f: "map fst (outcomes world st' syms) = syms" for st' syms
    by (induction syms arbitrary: st') simp_all
  have g: "fst (get_stock_data (world (calls st)) (stock_manager st) s) = Some d \<longrightarrow>
        current_data (update_symbol world st s) = (current_data st)(s \<mapsto> d)"
    by (simp add: update_symbol_writes)
  have h: "current_data (update_market_data world pm st) k =
        (if successes k (refresh_outcomes world pm st) = [] then current_data st k
         else snd (last (successes k (refresh_outcomes world pm st))))"
    unfolding update_market_data_eq refresh_outcomes_eq
    by (rule update_symbols_last)
  have i: "(k, Some d) \<in> set (refresh_outcomes world pm st) \<longrightarrow>
        current_data (update_market_data world pm st) k \<noteq> None"
  proof
    assume m: "(k, Some d) \<in> set (refresh_outcomes world pm st)"
    let ?ok = "successes k (refresh_outcomes world pm st)"
    from m have "(k, Some d) \<in> set ?ok"
      by (simp add: successes_def)
    then have ne: "?ok \<noteq> []"
      by auto
    then have "last ?ok \<in> set ?ok"
      by (rule last_in_set)
    then have "snd (last ?ok) \<noteq> None"
      by (simp add: successes_def)
    with h ne show "current_data (update_market_data world pm st) k \<noteq> None"
      by simp
  qed
  from a b c d e f [of st ?syms] g h i show ?thesis
    unfolding refresh_outcomes_eq by blast
qed

theorem snapshot_updated_incrementally_witness:
  "refresh_outcomes gspc_world new_PortfolioManager known_state
     = [(''^GSPC'', Some gspc_quote), (''^DJI'', None), (''^IXIC'', None), (''^VIX'', None),
        (''AAPL'', None), (''GOOGL'', None), (''MSFT'', None), (''TSLA'', None),
        (''AMZN'', None), (''NVDA'', None), (''META'', None), (''NFLX'', None)]
   \<and> current_data known_state ''AAPL'' = Some (quote_100 ''AAPL'')
   \<and> current_data (update_market_data gspc_world new_PortfolioManager known_state) ''AAPL''
       = Some (quote_100 ''AAPL'')
   \<and> fst (get_stock_data (gspc_world (calls known_state)) (stock_manager known_state) ''AAPL'')
       = None
   \<and> current_data (update_symbol gspc_world known_state ''AAPL'') = current_data known_state
   \<and> ''AAPL'' \<noteq> ''^GSPC''
   \<and> current_data (update_symbol gspc_world known_state ''^GSPC'') ''AAPL''
       = Some (quote_100 ''AAPL'')
   \<and> fst (get_stock_data (gspc_world (calls known_state)) (stock_manager known_state) ''^GSPC'')
       = Some gspc_quote
   \<and> current_data (update_symbol gspc_world known_state ''^GSPC'')
       = (current_data known_state)(''^GSPC'' \<mapsto> gspc_quote)
   \<and> current_data known_state ''^GSPC'' = None
   \<and> current_data (update_market_data gspc_world new_PortfolioManager known_state) ''^GSPC''
       = Some gspc_quote
   \<and> refresh_outcomes msft_world new_PortfolioManager known_state
       = [(''^GSPC'', None), (''^DJI'', None), (''^IXIC'', None), (''^VIX'', None),
          (''AAPL'', None), (''GOOGL'', None), (''MSFT'', Some msft_quote), (''TSLA'', None),
          (''AMZN'', None), (''NVDA'', None), (''META'', None), (''NFLX'', None)]
   \<and> current_data (update_market_data msft_world new_PortfolioManager known_state) ''MSFT''
       = Some msft_quote
   \<and> current_data (update_market_data msft_world new_PortfolioManager known_state) ''AAPL''
       = Some (quote_100 ''AAPL'')"
proof -
  have h1: "current_data known_state ''AAPL'' = Some (quote_100 ''AAPL'')"
    "current_data known_state ''^GSPC'' = None"
    by (simp_all add: known_state_def)
  have h2: "fst (get_stock_data (gspc_world (calls known_state)) (stock_manager known_state)
      ''AAPL'') = None"
    by (simp add: known_state_def get_stock_data_def gspc_world_def at_second_def gspc_only_def
        cached_fresh_def manager_with_def quote_100_def cache_duration_def)
  have h3: "''AAPL'' \<noteq> ''^GSPC''"
    by simp
  have h4: "fst (get_stock_data (gspc_world (calls known_state)) (stock_manager known_state)
      ''^GSPC'') = Some gspc_quote"
    by (simp add: known_state_def get_stock_data_def gspc_world_def
        at_second_def gspc_only_def cached_fresh_def manager_with_def make_stock_data_def
        previous_close_def percent_change_def no_info_def gspc_quote_def upper_gspc)
  have h5: "successes ''^GSPC'' (refresh_outcomes gspc_world new_PortfolioManager known_state)
      = [(''^GSPC'', Some gspc_quote)]"
    by (simp add: refresh_outcomes_quotes successes_def)
  from snapshot_updated_incrementally [of known_state gspc_world new_PortfolioManager
      "''AAPL''" "''AAPL''" gspc_quote]
    snapshot_updated_incrementally [of known_state gspc_world new_PortfolioManager
      "''AAPL''" "''^GSPC''" gspc_quote]
    snapshot_updated_incrementally [of known_state gspc_world new_PortfolioManager
      "''^GSPC''" "''^GSPC''" gspc_quote]
    snapshot_updated_incrementally [of known_state msft_world new_PortfolioManager
      "''MSFT''" "''MSFT''" msft_quote]
    snapshot_updated_incrementally [of known_state msft_world new_PortfolioManager
      "''AAPL''" "''MSFT''" msft_quote]
    aapl_fails_in_example refresh_outcomes_quotes refresh_outcomes_msft successes_msft
    successes_aapl_msft h1 h2 h3 h4 h5
  show ?thesis
    by simp
qed

end
